theory Spec2Isabelle
  imports Complex_Main "HOL-Library.AList"
begin

section \<open>webp-equiv: the quality search of \<open>webpRecompress\<close>\<close>

text \<open>
  The development embeds the function \<open>webpRecompress\<close> (the repository's main module)
  and \<open>encodeWebp\<close> (\<open>lib/encode-webp.mjs\<close>).  JavaScript numbers are idealised:
  a quality is an \<open>int\<close>, a byte size a \<open>nat\<close>, a score and a threshold a \<open>real\<close>.
  Console output is left out.  Every awaited collaborator call is an entry of an event
  history; a collaborator answers a call from its arguments and from the history so far,
  so the same call may be answered differently at different times.
\<close>

subsection \<open>Values\<close>

text \<open>
  The data slot of a failed \<open>to(...)\<close> or of a failed trial: \<open>Undefined\<close> stands for
  \<open>undefined\<close> and \<open>null\<close> (reading a property of it throws a TypeError), \<open>Value s\<close>
  for any other value, \<open>s\<close> being its string form (reading an unknown property of it
  yields \<open>undefined\<close>).
\<close>

datatype jsdata = Undefined | Value string

fun str_of :: "jsdata \<Rightarrow> string" where
  "str_of Undefined = ''undefined''"
| "str_of (Value s) = s"

text \<open>The pair \<open>[state, data]\<close> that \<open>await to(promise)\<close> yields.\<close>

datatype 'a outcome = Resolved 'a | Rejected jsdata

text \<open>An element of the argument vector handed to the encoder binary.\<close>

datatype arg = Str string | Num int

text \<open>One entry \<open>trials[quality]\<close> of the trials table (lines 129-133).\<close>

record trial_record =
  score :: real
  size_bytes :: nat
  attempts :: nat

text \<open>
  The trials table, a JavaScript object keyed by quality, as an association list with
  one pair per key, in the order of creation.
\<close>

type_synonym trials = "(int \<times> trial_record) list"

text \<open>The object \<open>files\<close> of lines 85-89.\<close>

record files =
  refPng :: string
  outputWebp :: string
  webpPng :: string

text \<open>The array \<open>[state, data, score, size]\<close> that \<open>trial\<close> returns.\<close>

datatype trial_result = TrialOk real nat | TrialFail jsdata

text \<open>
  The awaited calls, each with its answer: \<open>statAsync(path)\<close>, the encoder binary run
  on an argument vector, \<open>identify(input)\<close>, \<open>convert(input, refPng)\<close>,
  \<open>trial(..., quality, quiet, trials)\<close> (with the table it was handed) and
  \<open>cleanUp(files)\<close>.
\<close>

datatype event =
    EStat string "nat outcome"
  | EExecFile "arg list" "unit outcome"
  | EIdentify string "int outcome"
  | EConvert string string "unit outcome"
  | ETrial int bool trials trial_result
  | ECleanUp files

text \<open>
  The collaborators.  \<open>trial\<close> is handed the table by reference, so its answer carries
  the state of that table object after the call as well.
\<close>

record env =
  statAsync :: "event list \<Rightarrow> string \<Rightarrow> nat outcome"
  execFile :: "event list \<Rightarrow> arg list \<Rightarrow> unit outcome"
  identify :: "event list \<Rightarrow> string \<Rightarrow> int outcome"
  convert :: "event list \<Rightarrow> string \<Rightarrow> string \<Rightarrow> unit outcome"
  trial :: "event list \<Rightarrow> string \<Rightarrow> nat \<Rightarrow> files \<Rightarrow> int \<Rightarrow> bool \<Rightarrow> trials
              \<Rightarrow> trial_result \<times> trials"

text \<open>
  What \<open>webpRecompress\<close> imports from \<open>lib/utils.mjs\<close> and from \<open>path\<close>, files
  that are not among the sources: they are parameters of the model.
  \<open>pngRegex_replace input s\<close> is \<open>input.replace(pngRegex, s)\<close>, \<open>resolve p\<close> is
  \<open>path.resolve(process.cwd(), p)\<close>, \<open>roundTo\<close> is the call with the default
  precision (line 177).  \<open>getFinalQuality\<close> answers \<open>None\<close> when what it returns is
  not an array \<open>[quality, size]\<close>.
\<close>

record utils =
  pngRegex_test :: "string \<Rightarrow> bool"
  jpegRegex_test :: "string \<Rightarrow> bool"
  pngRegex_replace :: "string \<Rightarrow> string \<Rightarrow> string"
  jpegRegex_replace :: "string \<Rightarrow> string \<Rightarrow> string"
  resolve :: "string \<Rightarrow> string"
  roundTo :: "real \<Rightarrow> real"
  getQualityInterval :: "real \<Rightarrow> real \<Rightarrow> int \<Rightarrow> int"
  clampQuality :: "int \<Rightarrow> int"
  getFinalQuality :: "real \<Rightarrow> trials \<Rightarrow> (int \<times> nat) option"

text \<open>The parameters of \<open>webpRecompress\<close> (line 17).\<close>

record args =
  input :: string
  threshold :: real
  thresholdMultiplier :: real
  start :: int
  quiet :: bool
  verbose :: bool
  prior :: bool
  priorTrials :: "trials option"

text \<open>
  What a call returns: \<open>[false, message]\<close>, the two \<open>[true, ...]\<close> results with the
  numbers their messages are built from (input and output size; final quality, input
  size and final size), or a TypeError thrown by the function itself.
\<close>

datatype result =
    Failure string
  | EncodedLossless nat nat
  | CandidateFound int nat nat
  | Threw

text \<open>A result, with the trials table and the event history at that moment.\<close>

record answer =
  res :: result
  table :: trials
  events :: "event list"

subsection \<open>\<open>lib/encode-webp.mjs\<close>\<close>

text \<open>Lines 9-16: the encoder binary is run on \<open>-q quality -mt inputFile -o outputFile\<close>.\<close>

definition encodeWebp_argv :: "string \<Rightarrow> string \<Rightarrow> int \<Rightarrow> arg list" where
  "encodeWebp_argv inputFile outputFile q =
     [Str ''-q'', Num q, Str ''-mt'', Str inputFile, Str ''-o'', Str outputFile]"

definition encodeWebp :: "env \<Rightarrow> event list \<Rightarrow> string \<Rightarrow> string \<Rightarrow> int
    \<Rightarrow> unit outcome \<times> event list" where
  "encodeWebp E h inputFile outputFile q =
     (let r = execFile E h (encodeWebp_argv inputFile outputFile q)
      in (r, h @ [EExecFile (encodeWebp_argv inputFile outputFile q) r]))"

subsection \<open>The PNG path (lines 18-52)\<close>

text \<open>
  \<open>data.size\<close> for the data slot of a stat answer: the size of a Stats object,
  \<open>undefined\<close> (\<open>None\<close>) for another value, a TypeError for \<open>undefined\<close> or \<open>null\<close>.
\<close>

fun read_size :: "nat outcome \<Rightarrow> (nat option) option" where
  "read_size (Resolved n) = Some (Some n)"
| "read_size (Rejected (Value s)) = Some None"
| "read_size (Rejected Undefined) = None"

text \<open>\<open>priorTrials || {}\<close> (line 70); an object is truthy, also an empty one.\<close>

definition trials_of :: "args \<Rightarrow> trials" where
  "trials_of a = (case priorTrials a of None \<Rightarrow> [] | Some t \<Rightarrow> t)"

definition png_path :: "utils \<Rightarrow> env \<Rightarrow> event list \<Rightarrow> args \<Rightarrow> answer" where
  "png_path U E h a =
     (let r1 = statAsync E h (input a);
          h1 = h @ [EStat (input a) r1]
      in case r1 of
           Rejected d \<Rightarrow>
             \<lparr>res = Failure ''Couldn't get the size of PNG input.'',
              table = trials_of a, events = h1\<rparr>
         | Resolved inputSize \<Rightarrow>
             (let out = resolve U (pngRegex_replace U (input a) ''.webp'');
                  (r2, h2) = encodeWebp E h1 (input a) out 100
              in case r2 of
                   Rejected d \<Rightarrow>
                     \<lparr>res = Failure ''Couldn't encode lossless WebP from PNG input.'',
                      table = trials_of a, events = h2\<rparr>
                 | Resolved u \<Rightarrow>
                     (let r3 = statAsync E h2 out;
                          h3 = h2 @ [EStat out r3]
                      in case read_size r3 of
                           None \<Rightarrow> \<lparr>res = Threw, table = trials_of a, events = h3\<rparr>
                         | Some outputSize \<Rightarrow>
                             (case r3 of
                                Rejected d \<Rightarrow>
                                  \<lparr>res = Failure ''Couldn't get the size of PNG input.'',
                                   table = trials_of a, events = h3\<rparr>
                              | Resolved n \<Rightarrow>
                                  \<lparr>res = EncodedLossless inputSize n,
                                   table = trials_of a, events = h3\<rparr>))))"

subsection \<open>The search loop (lines 120-165)\<close>

text \<open>\<open>quality in trials\<close>, the creation of an entry and \<open>trials[quality].attempts++\<close>.\<close>

definition has_key :: "trials \<Rightarrow> int \<Rightarrow> bool" where
  "has_key tr q = (map_of tr q \<noteq> None)"

definition record_attempt :: "int \<Rightarrow> real \<Rightarrow> nat \<Rightarrow> trials \<Rightarrow> trials" where
  "record_attempt q sc sz tr =
     AList.map_entry q (\<lambda>r. r\<lparr>attempts := attempts r + 1\<rparr>)
       (if has_key tr q then tr
        else AList.update q \<lparr>score = sc, size_bytes = sz, attempts = 0\<rparr> tr)"

definition attempts_at :: "trials \<Rightarrow> int \<Rightarrow> nat" where
  "attempts_at tr q = (case map_of tr q of None \<Rightarrow> 0 | Some r \<Rightarrow> attempts r)"

text \<open>
  How the loop is left: by the \<open>return\<close> of line 124, or past its end with the values of
  \<open>quality\<close>, \<open>score\<close>, \<open>size\<close> and \<open>trials\<close>.
\<close>

datatype loop_exit =
    TrialFailed jsdata trials "event list"
  | LoopDone int real nat trials "event list"

text \<open>
  The \<open>do ... while\<close> loop, one iteration per unit of fuel; \<open>None\<close> when the fuel runs
  out.  The arguments are \<open>input\<close>, \<open>quiet\<close>, \<open>threshold\<close>, \<open>inputSize\<close>, \<open>files\<close>,
  and the loop's variables \<open>quality\<close> and \<open>trials\<close>.
\<close>

fun search_loop :: "nat \<Rightarrow> utils \<Rightarrow> env \<Rightarrow> string \<Rightarrow> bool \<Rightarrow> real \<Rightarrow> nat \<Rightarrow> files
    \<Rightarrow> int \<Rightarrow> trials \<Rightarrow> event list \<Rightarrow> loop_exit option" where
  "search_loop 0 U E inp qt thr inputSize fs q tr h = None"
| "search_loop (Suc k) U E inp qt thr inputSize fs q tr h =
     (case trial E h inp inputSize fs q qt tr of
        (TrialFail d, tr1) \<Rightarrow> Some (TrialFailed d tr1 (h @ [ETrial q qt tr (TrialFail d)]))
      | (TrialOk sc sz, tr1) \<Rightarrow>
          (let h1 = h @ [ETrial q qt tr (TrialOk sc sz)];
               tr2 = record_attempt q sc sz tr1
           in if attempts_at tr2 q > 3 then
                Some (LoopDone (if sz \<ge> inputSize then q - 2 else q + 2) sc sz tr2 h1)
              else
                (let interval = getQualityInterval U sc thr q
                 in if sz \<ge> inputSize then
                      (if sc > thr \<or> sz \<ge> inputSize
                       then search_loop k U E inp qt thr inputSize fs (q - interval) tr2 h1
                       else Some (LoopDone (q - interval) sc sz tr2 h1))
                    else if sc \<le> thr then Some (LoopDone q sc sz tr2 h1)
                    else
                      (let q' = clampQuality U (q + interval)
                       in if sc > thr \<or> sz \<ge> inputSize
                          then search_loop k U E inp qt thr inputSize fs q' tr2 h1
                          else Some (LoopDone q' sc sz tr2 h1)))))"

subsection \<open>The final candidate (lines 168-173) and the retry (line 177)\<close>

definition final_candidate :: "utils \<Rightarrow> env \<Rightarrow> string \<Rightarrow> nat \<Rightarrow> files \<Rightarrow> real \<Rightarrow> trials
    \<Rightarrow> event list \<Rightarrow> answer" where
  "final_candidate U E inp inputSize fs sc tr h =
     (case getFinalQuality U sc tr of
        None \<Rightarrow> \<lparr>res = Threw, table = tr, events = h\<rparr>
      | Some (fq, fsize) \<Rightarrow>
          (let (rt, scratch) = trial E h inp inputSize fs fq True [];
               h1 = h @ [ETrial fq True [] rt];
               h2 = h1 @ [ECleanUp fs]
           in \<lparr>res = CandidateFound fq inputSize fsize, table = tr, events = h2\<rparr>))"

definition retry_args :: "utils \<Rightarrow> args \<Rightarrow> int \<Rightarrow> trials \<Rightarrow> args" where
  "retry_args U a q tr =
     a\<lparr>threshold := roundTo U (threshold a * thresholdMultiplier a),
       start := q, prior := True, priorTrials := Some tr\<rparr>"

subsection \<open>\<open>webpRecompress\<close> (lines 17-178)\<close>

text \<open>
  One invocation: it returns, or it ends in the recursive call of line 177 (with the
  arguments of that call and the history so far), or its loop runs out of fuel.
\<close>

datatype step = Return answer | Recurse args "event list" | OutOfFuel

text \<open>
  Lines 54-118, what comes before the loop for an input that is not a PNG: an early
  return, or the loop's start with \<open>inputSize\<close>, \<open>files\<close>, \<open>quality\<close>, \<open>trials\<close> and the
  history.
\<close>

datatype prepared = Early answer | Ready nat files int trials "event list"

definition work_files :: "utils \<Rightarrow> args \<Rightarrow> files" where
  "work_files U a =
     \<lparr>refPng = resolve U (jpegRegex_replace U (input a) ''.png''),
      outputWebp = resolve U (jpegRegex_replace U (input a) ''.webp''),
      webpPng = resolve U (jpegRegex_replace U (input a) ''-webp.png'')\<rparr>"

definition prepare :: "utils \<Rightarrow> env \<Rightarrow> event list \<Rightarrow> args \<Rightarrow> prepared" where
  "prepare U E h a =
     (if \<not> jpegRegex_test U (input a) \<and> \<not> pngRegex_test U (input a) then
        Early \<lparr>res = Failure ''Input must be a JPEG or PNG image.'',
               table = trials_of a, events = h\<rparr>
      else
        (let start1 = (if start a > 100 \<or> start a < 0 then clampQuality U (start a)
                       else start a)
         in if threshold a > 1 \<or> threshold a < 0 then
              Early \<lparr>res = Failure ''Threshold must be between 0 and 1.'',
                     table = trials_of a, events = h\<rparr>
            else
              (let tr0 = trials_of a;
                   r = statAsync E h (input a);
                   h1 = h @ [EStat (input a) r]
               in case r of
                    Rejected d \<Rightarrow>
                      Early \<lparr>res = Failure ''Couldn't get the size of JPEG input.'',
                             table = tr0, events = h1\<rparr>
                  | Resolved inputSize \<Rightarrow>
                      (let fs = work_files U a;
                           (q0, h2) =
                             (if \<not> prior a then
                                (let ri = identify E h1 (input a)
                                 in (case ri of Resolved g \<Rightarrow> g | Rejected d \<Rightarrow> start1,
                                     h1 @ [EIdentify (input a) ri]))
                              else (start1, h1));
                           rc = convert E h2 (input a) (refPng fs);
                           h3 = h2 @ [EConvert (input a) (refPng fs) rc]
                       in case rc of
                            Rejected d \<Rightarrow>
                              Early \<lparr>res = Failure
                                  (''Couldn't create a PNG reference from the JPEG given: ''
                                     @ str_of d),
                                table = tr0, events = h3\<rparr>
                          | Resolved u \<Rightarrow> Ready inputSize fs q0 tr0 h3))))"

text \<open>The whole body: the PNG path, or lines 54-118, the loop and lines 167-177.\<close>

definition webpRecompress_body :: "nat \<Rightarrow> utils \<Rightarrow> env \<Rightarrow> event list \<Rightarrow> args \<Rightarrow> step" where
  "webpRecompress_body k U E h a =
     (if pngRegex_test U (input a) then Return (png_path U E h a)
      else
        (case prepare U E h a of
           Early out \<Rightarrow> Return out
         | Ready inputSize fs q0 tr0 h3 \<Rightarrow>
             (case search_loop k U E (input a) (quiet a) (threshold a) inputSize fs q0 tr0 h3 of
                None \<Rightarrow> OutOfFuel
              | Some (TrialFailed d tr h4) \<Rightarrow>
                  Return \<lparr>res = Failure (''Couldn't run image trial: '' @ str_of d),
                          table = tr, events = h4\<rparr>
              | Some (LoopDone q sc sz tr h4) \<Rightarrow>
                  if sc \<le> threshold a \<and> sz < inputSize then
                    Return (final_candidate U E (input a) inputSize fs sc tr h4)
                  else Recurse (retry_args U a q tr) h4)))"

text \<open>
  The function with its recursion: \<open>k\<close> bounds the iterations of each loop, \<open>n\<close> the
  number of recursive calls; \<open>None\<close> when either bound is reached.
\<close>

fun webpRecompress :: "nat \<Rightarrow> nat \<Rightarrow> utils \<Rightarrow> env \<Rightarrow> event list \<Rightarrow> args \<Rightarrow> answer option" where
  "webpRecompress k 0 U E h a =
     (case webpRecompress_body k U E h a of
        Return out \<Rightarrow> Some out
      | Recurse a' h' \<Rightarrow> None
      | OutOfFuel \<Rightarrow> None)"
| "webpRecompress k (Suc n) U E h a =
     (case webpRecompress_body k U E h a of
        Return out \<Rightarrow> Some out
      | Recurse a' h' \<Rightarrow> webpRecompress k n U E h' a'
      | OutOfFuel \<Rightarrow> None)"

subsection \<open>Reading the event history\<close>

fun is_trial :: "event \<Rightarrow> bool" where
  "is_trial (ETrial q qt tr r) = True"
| "is_trial e = False"

text \<open>The events of a search: guessing the quality, the reference image, trials, cleanup.\<close>

fun is_search_event :: "event \<Rightarrow> bool" where
  "is_search_event (EStat p r) = False"
| "is_search_event (EExecFile argv r) = False"
| "is_search_event e = True"

text \<open>The argument vectors the encoder binary was run on, in order.\<close>

fun encoder_runs :: "event list \<Rightarrow> arg list list" where
  "encoder_runs [] = []"
| "encoder_runs (EExecFile argv r # es) = argv # encoder_runs es"
| "encoder_runs (e # es) = encoder_runs es"

subsection \<open>The helpers of \<open>lib/utils.mjs\<close>, from the specification\<close>

text \<open>
  Modelled from the spec: \<open>clampQuality\<close> (\<open>lib/utils.mjs\<close> is not among the sources)
  "maps any real number to the closed integer range [0,100]; values below 0 floor to 0,
  above 100 ceil to 100".
\<close>

definition clampQuality_spec :: "int \<Rightarrow> int" where
  "clampQuality_spec q = (if q < 0 then 0 else if q > 100 then 100 else q)"

text \<open>
  Modelled from the spec: \<open>getQualityInterval\<close> (\<open>lib/utils.mjs\<close> is not among the
  sources) "returns a positive step size", for instance "proportional to
  |score - threshold| scaled by a constant, with a floor of 1"; the constant is taken to
  be 100.
\<close>

definition getQualityInterval_spec :: "real \<Rightarrow> real \<Rightarrow> int \<Rightarrow> int" where
  "getQualityInterval_spec sc thr q = max 1 \<lfloor>\<bar>sc - thr\<bar> * 100\<rfloor>"

text \<open>
  Modelled from the spec: \<open>roundTo\<close> (\<open>lib/utils.mjs\<close> is not among the sources), 
  "rounded to a fixed decimal precision": to the nearest multiple of \<open>10 ^ -p\<close>, where
  \<open>p\<close> is the default precision, which the spec does not give.
\<close>

definition roundTo_spec :: "nat \<Rightarrow> real \<Rightarrow> real" where
  "roundTo_spec p x = of_int (round (x * 10 ^ p)) / 10 ^ p"

text \<open>
  Modelled from the spec: \<open>getFinalQuality(score, trials)\<close> (\<open>lib/utils.mjs\<close> is not
  among the sources) chooses "among all qualities whose recorded score satisfies the
  threshold, the one with the smallest recorded size (ties broken by lower quality
  value)" and "returns (quality, size)".  The threshold is not among the arguments of the
  call (line 168 passes the score of the last trial and the table), so it is a parameter
  of the modelled function, before the two arguments of the call; the score passed is
  not used.  With no such quality the answer is \<open>None\<close>.
\<close>

fun better :: "int \<times> trial_record \<Rightarrow> int \<times> trial_record \<Rightarrow> bool" where
  "better (q, r) (q', r') =
     (size_bytes r < size_bytes r' \<or> (size_bytes r = size_bytes r' \<and> q < q'))"

fun best :: "(int \<times> trial_record) list \<Rightarrow> (int \<times> trial_record) option" where
  "best [] = None"
| "best (x # xs) =
     (case best xs of None \<Rightarrow> Some x | Some y \<Rightarrow> if better y x then Some y else Some x)"

definition getFinalQuality_spec :: "real \<Rightarrow> real \<Rightarrow> trials \<Rightarrow> (int \<times> nat) option" where
  "getFinalQuality_spec thr sc tr =
     map_option (\<lambda>(q, r). (q, size_bytes r)) (best (filter (\<lambda>(q, r). score r \<le> thr) tr))"

text \<open>
  Stand-ins for the regular expressions of \<open>lib/utils.mjs\<close> and for \<open>path.resolve\<close>,
  used where a concrete input is evaluated: an input is a PNG when it ends in \<open>.png\<close>
  and a JPEG when it ends in \<open>.jpg\<close>; the working directory is \<open>/cwd\<close>.  The helpers
  for concrete runs are those modelled above, with \<open>p\<close> the decimal places \<open>roundTo\<close>
  keeps and \<open>thr\<close> the threshold \<open>getFinalQuality\<close> selects by.
\<close>

definition ends_with :: "string \<Rightarrow> string \<Rightarrow> bool" where
  "ends_with ext s = (length ext \<le> length s \<and> drop (length s - length ext) s = ext)"

definition replace_ext :: "string \<Rightarrow> string \<Rightarrow> string \<Rightarrow> string" where
  "replace_ext ext s new =
     (if ends_with ext s then take (length s - length ext) s @ new else s)"

definition utils_spec :: "nat \<Rightarrow> real \<Rightarrow> utils" where
  "utils_spec p thr =
     \<lparr>pngRegex_test = ends_with ''.png'', jpegRegex_test = ends_with ''.jpg'',
      pngRegex_replace = replace_ext ''.png'', jpegRegex_replace = replace_ext ''.jpg'',
      resolve = (\<lambda>f. ''/cwd/'' @ f), roundTo = roundTo_spec p,
      getQualityInterval = getQualityInterval_spec, clampQuality = clampQuality_spec,
      getFinalQuality = getFinalQuality_spec thr\<rparr>"

text \<open>The helpers of the concrete runs below: three decimal places, a threshold of 0.02.\<close>

definition spec_utils :: utils where
  "spec_utils = utils_spec 3 (2/100)"

text \<open>
  Stub collaborators for concrete runs: \<open>statAsync\<close> answers from the path, the encoder,
  \<open>identify\<close> and \<open>convert\<close> always answer the same, and \<open>trial\<close> answers from the
  number of trials run before and the quality, and leaves the table it is handed alone.
\<close>

definition stub_env :: "(string \<Rightarrow> nat outcome) \<Rightarrow> unit outcome \<Rightarrow> int outcome \<Rightarrow> unit outcome
    \<Rightarrow> (nat \<Rightarrow> int \<Rightarrow> trial_result) \<Rightarrow> env" where
  "stub_env st ex idn cv ans =
     \<lparr>statAsync = (\<lambda>h f. st f), execFile = (\<lambda>h argv. ex), identify = (\<lambda>h f. idn),
      convert = (\<lambda>h f g. cv),
      trial = (\<lambda>h inp isz fs q qt tr. (ans (length (filter is_trial h)) q, tr))\<rparr>"

definition call :: "string \<Rightarrow> real \<Rightarrow> real \<Rightarrow> int \<Rightarrow> args" where
  "call inp thr mult st =
     \<lparr>input = inp, threshold = thr, thresholdMultiplier = mult, start = st,
      quiet = False, verbose = False, prior = False, priorTrials = None\<rparr>"

subsection \<open>Trials in the history, and evaluators\<close>

text \<open>The answer of the first and of the last trial run at a quality, if any.\<close>

fun first_trial_at :: "int \<Rightarrow> event list \<Rightarrow> trial_result option" where
  "first_trial_at q [] = None"
| "first_trial_at q (ETrial q' qt tr r # es) = (if q' = q then Some r else first_trial_at q es)"
| "first_trial_at q (e # es) = first_trial_at q es"

fun last_trial_at :: "int \<Rightarrow> event list \<Rightarrow> trial_result option" where
  "last_trial_at q [] = None"
| "last_trial_at q (ETrial q' qt tr r # es) =
     (case last_trial_at q es of
        Some x \<Rightarrow> Some x
      | None \<Rightarrow> if q' = q then Some r else None)"
| "last_trial_at q (e # es) = last_trial_at q es"

text \<open>What a table entry says was observed.\<close>

definition obs_of :: "trial_record \<Rightarrow> trial_result" where
  "obs_of r = TrialOk (score r) (size_bytes r)"

text \<open>A trial evaluator that never writes to the table it is handed.\<close>

definition readonly :: "env \<Rightarrow> bool" where
  "readonly E = (\<forall>h inp isz fs q qt tr. snd (trial E h inp isz fs q qt tr) = tr)"

text \<open>
  The table holds, for each quality, what the first trial at that quality answered, and
  no entry for a quality without a trial; and the half of it that concerns the entries.
\<close>

definition first_recorded :: "trials \<Rightarrow> event list \<Rightarrow> bool" where
  "first_recorded tr h = (\<forall>q. first_trial_at q h = map_option obs_of (map_of tr q))"

definition keys_first :: "trials \<Rightarrow> event list \<Rightarrow> bool" where
  "keys_first tr h = (\<forall>q r. map_of tr q = Some r \<longrightarrow> first_trial_at q h = Some (obs_of r))"






subsection \<open>Concrete calls\<close>

text \<open>
  Collaborators for a JPEG of \<open>isz\<close> bytes whose quality cannot be guessed; a variant
  whose trial, when called quietly, writes an entry into the table it is handed.
\<close>

definition jpg_env :: "nat \<Rightarrow> (nat \<Rightarrow> int \<Rightarrow> trial_result) \<Rightarrow> env" where
  "jpg_env isz ans =
     stub_env (\<lambda>f. Resolved isz) (Resolved ()) (Rejected Undefined) (Resolved ()) ans"

definition scribbling_env :: "nat \<Rightarrow> env" where
  "scribbling_env isz =
     (jpg_env isz (\<lambda>i q. TrialOk (1/100) 60000))
       \<lparr>trial := (\<lambda>h inp isz fs q qt tr.
          (TrialOk (1/100) 60000,
           if qt then (q, \<lparr>score = 0, size_bytes = 0, attempts = 9\<rparr>) # tr else tr))\<rparr>"

text \<open>
  An evaluator whose first, second and later trials answer differently, whatever the
  quality; and three calls on \<open>a.jpg\<close> with a threshold of 0.02.
\<close>

definition wobble :: "nat \<Rightarrow> int \<Rightarrow> trial_result" where
  "wobble i q = (if i = 0 then TrialOk (1/1000) 2000 else if i = 1 then TrialOk (3/100) 10
                 else TrialOk (1/100) 10)"

definition wobble_call :: args where
  "wobble_call = call ''a.jpg'' (2/100) (11/10) 60"

definition steady_call :: args where
  "steady_call = call ''a.jpg'' (2/100) (11/10) 80"

definition stuck_call :: args where
  "stuck_call = call ''a.jpg'' (2/100) (11/10) 100"




text \<open>A call on the PNG file \<open>a.png\<close> with a threshold of 2, and its collaborators.\<close>

definition png_call :: args where
  "png_call = call ''a.png'' 2 (11/10) 75"

definition png_env :: "nat outcome \<Rightarrow> unit outcome \<Rightarrow> nat outcome \<Rightarrow> env" where
  "png_env probe enc probe2 =
     stub_env (\<lambda>f. if f = ''a.png'' then probe else probe2) enc
       (Rejected Undefined) (Resolved ()) (\<lambda>i q. TrialFail Undefined)"

section \<open>Properties\<close>

lemmas concrete_defs =
  spec_utils_def utils_spec_def stub_env_def call_def ends_with_def replace_ext_def
  webpRecompress_body_def prepare_def work_files_def png_path_def encodeWebp_def
  encodeWebp_argv_def trials_of_def Let_def

lemmas jpg_defs = jpg_env_def concrete_defs final_candidate_def retry_args_def
  record_attempt_def has_key_def attempts_at_def getQualityInterval_spec_def clampQuality_spec_def
  getFinalQuality_spec_def

subsection \<open>The PNG path\<close>

lemma body_png:
  "pngRegex_test U (input a) \<Longrightarrow> webpRecompress k n U E h a = Some (png_path U E h a)"
  by (cases n) (simp_all add: webpRecompress_body_def)

text \<open>
  The control flow of the PNG path.  For a PNG input the call returns whatever the fuel
  and the threshold, and adds to the history no event of a search (no quality guess, no
  reference image, no trial, no cleanup).  The encoder is run once, on
  \<open>-q 100 -mt input -o output\<close>, when the size probe of the input succeeds, and not at
  all when that probe fails.  A failed probe of the input returns the failure after that
  one event; a failed encode returns the failure after the probe and the encode, with
  nothing run again.
\<close>

lemma png_single_encode:
  assumes png: "pngRegex_test U (input a)"
  shows "\<exists>out evs. webpRecompress k n U E h a = Some out \<and> events out = h @ evs
     \<and> filter is_search_event evs = []
     \<and> encoder_runs evs =
         (case statAsync E h (input a) of
            Rejected d \<Rightarrow> []
          | Resolved n \<Rightarrow>
              [encodeWebp_argv (input a) (resolve U (pngRegex_replace U (input a) ''.webp'')) 100])
     \<and> (\<forall>d. statAsync E h (input a) = Rejected d \<longrightarrow>
           res out = Failure ''Couldn't get the size of PNG input.''
           \<and> evs = [EStat (input a) (Rejected d)])
     \<and> (\<forall>n d. statAsync E h (input a) = Resolved n
            \<and> execFile E (h @ [EStat (input a) (Resolved n)])
                 (encodeWebp_argv (input a) (resolve U (pngRegex_replace U (input a) ''.webp'')) 100)
               = Rejected d \<longrightarrow>
           res out = Failure ''Couldn't encode lossless WebP from PNG input.''
           \<and> evs = [EStat (input a) (Resolved n),
                    EExecFile (encodeWebp_argv (input a)
                       (resolve U (pngRegex_replace U (input a) ''.webp'')) 100) (Rejected d)])"
proof -
  have run: "webpRecompress k n U E h a = Some (png_path U E h a)"
    using png by (rule body_png)
  show ?thesis
    unfolding run
    by (auto simp: png_path_def encodeWebp_def Let_def
          split: outcome.splits option.splits jsdata.splits)
qed

text \<open>
  C1 fails on the code.  On \<open>a.png\<close> the one run of the encoder has the six arguments
  \<open>-q 100 -mt a.png -o /cwd/a.webp\<close> of \<open>lib/encode-webp.mjs\<close>: \<open>-lossless\<close> is not
  among them, so the binary is asked for its (lossy) encoding at quality 100, and the
  call reports the result as the lossless encode (comment of line 35, message of line 51).
\<close>

theorem png_encode_without_lossless_flag:
  "\<exists>out. webpRecompress 0 0 spec_utils
            (png_env (Resolved 1000) (Resolved ()) (Resolved 400)) [] png_call = Some out
     \<and> res out = EncodedLossless 1000 400
     \<and> encoder_runs (events out) =
         [[Str ''-q'', Num 100, Str ''-mt'', Str ''a.png'', Str ''-o'', Str ''/cwd/a.webp'']]
     \<and> Str ''-lossless'' \<notin> set (concat (encoder_runs (events out)))"
  by (simp add: png_call_def png_env_def concrete_defs)

text \<open>
  C10, as amended.  On the PNG path, \<open>data.size\<close> of the output probe is read (line 45)
  before the failure flag is looked at (line 47).  When the failed probe leaves
  \<open>undefined\<close> or \<open>null\<close> in \<open>data\<close>, that read throws and no tagged failure is returned;
  when it leaves any other value there (a rejection's Error object), the read yields
  \<open>undefined\<close> and the tagged failure of line 48 is returned.
\<close>

theorem png_output_probe_failure:
  assumes "pngRegex_test U (input a)"
    and "statAsync E h (input a) = Resolved n"
    and "execFile E (h @ [EStat (input a) (Resolved n)])
           (encodeWebp_argv (input a) (resolve U (pngRegex_replace U (input a) ''.webp'')) 100)
         = Resolved ()"
    and "statAsync E
           (h @ [EStat (input a) (Resolved n),
                 EExecFile (encodeWebp_argv (input a)
                    (resolve U (pngRegex_replace U (input a) ''.webp'')) 100) (Resolved ())])
           (resolve U (pngRegex_replace U (input a) ''.webp'')) = Rejected d"
  shows "\<exists>out. webpRecompress k m U E h a = Some out \<and>
     res out = (case d of Undefined \<Rightarrow> Threw
                | Value s \<Rightarrow> Failure ''Couldn't get the size of PNG input.'')"
proof -
  have run: "webpRecompress k m U E h a = Some (png_path U E h a)"
    using assms(1) by (rule body_png)
  show ?thesis
    unfolding run using assms(2-4)
    by (cases d) (simp_all add: png_path_def encodeWebp_def Let_def)
qed

text \<open>C10 as amended, at a failed output probe that leaves \<open>undefined\<close>: the call throws.\<close>

theorem png_output_probe_failure_witness:
  "pngRegex_test spec_utils (input png_call) \<and>
   (\<exists>out. webpRecompress 0 0 spec_utils
            (png_env (Resolved 1000) (Resolved ()) (Rejected Undefined)) [] png_call = Some out
      \<and> res out = Threw)"
proof -
  have png: "pngRegex_test spec_utils (input png_call)"
    by (simp add: png_call_def concrete_defs)
  have "\<exists>out. webpRecompress 0 0 spec_utils
            (png_env (Resolved 1000) (Resolved ()) (Rejected Undefined)) [] png_call = Some out
      \<and> res out = (case Undefined of Undefined \<Rightarrow> Threw
                | Value s \<Rightarrow> Failure ''Couldn't get the size of PNG input.'')"
    by (rule png_output_probe_failure [OF png, where n = 1000])
       (simp_all add: png_call_def png_env_def concrete_defs)
  with png show ?thesis by simp
qed

text \<open>
  C10 as stated fails: the output probe is rejected with an Error object, and the tagged
  failure of line 48 is what the call returns.
\<close>

theorem png_output_probe_failure_reported:
  "webpRecompress 0 0 spec_utils
     (png_env (Resolved 1000) (Resolved ()) (Rejected (Value ''Error: ENOENT''))) [] png_call
   = Some \<lparr>res = Failure ''Couldn't get the size of PNG input.'', table = [],
           events = [EStat ''a.png'' (Resolved 1000),
                     EExecFile [Str ''-q'', Num 100, Str ''-mt'', Str ''a.png'', Str ''-o'',
                                Str ''/cwd/a.webp''] (Resolved ()),
                     EStat ''/cwd/a.webp'' (Rejected (Value ''Error: ENOENT''))]\<rparr>"
  by (simp add: png_call_def png_env_def concrete_defs)

subsection \<open>The threshold check\<close>

text \<open>
  C4, as amended.  For an input that is a JPEG and not a PNG, a threshold above 1 or below
  0 makes the call return the failure "Threshold must be between 0 and 1." with the
  history as it was: no collaborator has been called.
\<close>

theorem threshold_rejected_for_jpeg:
  assumes "\<not> pngRegex_test U (input a)" and "jpegRegex_test U (input a)"
    and "threshold a > 1 \<or> threshold a < 0"
  shows "webpRecompress k n U E h a =
     Some \<lparr>res = Failure ''Threshold must be between 0 and 1.'',
           table = trials_of a, events = h\<rparr>"
  using assms by (cases n) (simp_all add: webpRecompress_body_def prepare_def Let_def)

text \<open>C4 as amended, at \<open>a.jpg\<close> with a threshold of 2.\<close>

theorem threshold_rejected_for_jpeg_witness:
  "\<not> pngRegex_test spec_utils (input (call ''a.jpg'' 2 (11/10) 75))
   \<and> jpegRegex_test spec_utils (input (call ''a.jpg'' 2 (11/10) 75))
   \<and> (threshold (call ''a.jpg'' 2 (11/10) 75) > 1 \<or> threshold (call ''a.jpg'' 2 (11/10) 75) < 0)
   \<and> webpRecompress 5 5 spec_utils (png_env (Resolved 1000) (Resolved ()) (Resolved 400)) []
        (call ''a.jpg'' 2 (11/10) 75)
      = Some \<lparr>res = Failure ''Threshold must be between 0 and 1.'', table = [], events = []\<rparr>"
proof -
  have a: "\<not> pngRegex_test spec_utils (input (call ''a.jpg'' 2 (11/10) 75))"
    and b: "jpegRegex_test spec_utils (input (call ''a.jpg'' 2 (11/10) 75))"
    and c: "threshold (call ''a.jpg'' 2 (11/10) 75) > 1 \<or> threshold (call ''a.jpg'' 2 (11/10) 75) < 0"
    by (simp_all add: concrete_defs)
  from threshold_rejected_for_jpeg [OF a b c, of 5 5
      "png_env (Resolved 1000) (Resolved ()) (Resolved 400)" "[]"]
  show ?thesis using a b c by (simp add: trials_of_def call_def)
qed

text \<open>
  C4 as stated fails for a PNG input: with a threshold of 2 the call on \<open>a.png\<close> runs the
  encoder and returns the success of line 51.
\<close>

theorem threshold_ignored_for_png:
  "threshold png_call > 1 \<and>
   webpRecompress 0 0 spec_utils (png_env (Resolved 1000) (Resolved ()) (Resolved 400)) [] png_call
     = Some \<lparr>res = EncodedLossless 1000 400, table = [],
             events = [EStat ''a.png'' (Resolved 1000),
                       EExecFile [Str ''-q'', Num 100, Str ''-mt'', Str ''a.png'', Str ''-o'',
                                  Str ''/cwd/a.webp''] (Resolved ()),
                       EStat ''/cwd/a.webp'' (Resolved 400)]\<rparr>"
  by (simp add: png_call_def png_env_def concrete_defs)

subsection \<open>The trials table\<close>

lemma map_of_record_attempt:
  "map_of (record_attempt q sc sz tr) =
     (map_of tr)(q \<mapsto> (case map_of tr q of
                       None \<Rightarrow> \<lparr>score = sc, size_bytes = sz, attempts = 1\<rparr>
                     | Some r \<Rightarrow> r\<lparr>attempts := attempts r + 1\<rparr>))"
  by (auto simp: record_attempt_def has_key_def map_of_map_entry update_conv' fun_eq_iff
           split: option.splits)



subsection \<open>The shape of a call\<close>

lemma png_path_shape:
  "\<exists>evs. table (png_path U E h a) = trials_of a \<and> events (png_path U E h a) = h @ evs
     \<and> filter is_trial evs = []"
  by (auto simp: png_path_def encodeWebp_def Let_def
           split: outcome.splits option.splits prod.splits)

lemma prepare_Early_shape:
  "prepare U E h a = Early out \<Longrightarrow>
     \<exists>evs msg. table out = trials_of a \<and> events out = h @ evs \<and> filter is_trial evs = []
       \<and> res out = Failure msg"
  by (auto simp: prepare_def Let_def split: if_splits outcome.splits prod.splits)

lemma prepare_Ready_shape:
  "prepare U E h a = Ready isz fs q0 tr0 h3 \<Longrightarrow>
     \<exists>evs. tr0 = trials_of a \<and> h3 = h @ evs \<and> filter is_trial evs = []
       \<and> fs = work_files U a \<and> 0 \<le> threshold a \<and> threshold a \<le> 1"
  by (auto simp: prepare_def Let_def split: if_splits outcome.splits prod.splits)

lemma final_candidate_shape:
  "table (final_candidate U E inp isz fs sc tr h) = tr \<and>
   (\<exists>evs. events (final_candidate U E inp isz fs sc tr h) = h @ evs)"
  by (auto simp: final_candidate_def Let_def split: option.splits prod.splits)

lemma trials_of_retry_args [simp]: "trials_of (retry_args U a q tr) = tr"
  by (simp add: trials_of_def retry_args_def)

lemma png_path_not_candidate: "res (png_path U E h a) \<noteq> CandidateFound fq isz fsz"
  by (simp add: png_path_def encodeWebp_def Let_def split: outcome.splits option.splits prod.splits)

lemma body_candidate_cases:
  assumes ret: "webpRecompress_body k U E h a = Return out"
    and found: "res out = CandidateFound fq isz fsz"
  shows "\<exists>fs q0 tr0 h3 q sc sz h4 rt scratch.
     prepare U E h a = Ready isz fs q0 tr0 h3
     \<and> search_loop k U E (input a) (quiet a) (threshold a) isz fs q0 tr0 h3
         = Some (LoopDone q sc sz (table out) h4)
     \<and> sc \<le> threshold a \<and> sz < isz
     \<and> getFinalQuality U sc (table out) = Some (fq, fsz)
     \<and> trial E h4 (input a) isz fs fq True [] = (rt, scratch)
     \<and> events out = h4 @ [ETrial fq True [] rt, ECleanUp fs]"
proof (cases "pngRegex_test U (input a)")
  case True
  with ret found png_path_not_candidate [of U E h a fq isz fsz] show ?thesis
    by (auto simp: webpRecompress_body_def)
next
  case False
  show ?thesis
  proof (cases "prepare U E h a")
    case (Early e)
    with False ret found prepare_Early_shape [OF Early] show ?thesis
      by (auto simp: webpRecompress_body_def)
  next
    case (Ready isz' fs q0 tr0 h3)
    with False ret found show ?thesis
      by (auto simp: webpRecompress_body_def final_candidate_def Let_def
               split: option.splits loop_exit.splits if_splits prod.splits)
  qed
qed

subsection \<open>What the table records\<close>

lemma first_trial_at_append:
  "first_trial_at q (h @ g) =
     (case first_trial_at q h of Some x \<Rightarrow> Some x | None \<Rightarrow> first_trial_at q g)"
  by (induction q h rule: first_trial_at.induct) simp_all

lemma first_trial_at_no_trials:
  "filter is_trial g = [] \<Longrightarrow> first_trial_at q g = None"
  by (induction q g rule: first_trial_at.induct) (simp_all split: if_splits)

lemma first_recorded_keys: "first_recorded tr h \<Longrightarrow> keys_first tr h"
  by (simp add: first_recorded_def keys_first_def)

lemma keys_first_append: "keys_first tr h \<Longrightarrow> keys_first tr (h @ g)"
  by (simp add: keys_first_def first_trial_at_append)

lemma first_recorded_append:
  "first_recorded tr h \<Longrightarrow> filter is_trial g = [] \<Longrightarrow> first_recorded tr (h @ g)"
  by (simp add: first_recorded_def first_trial_at_append first_trial_at_no_trials
           split: option.splits)

lemma first_recorded_step:
  assumes "first_recorded tr h"
  shows "first_recorded (record_attempt q sc sz tr) (h @ [ETrial q qt t (TrialOk sc sz)])"
  unfolding first_recorded_def
proof
  fix p
  from assms have inv: "first_trial_at p h = map_option obs_of (map_of tr p)"
    by (simp add: first_recorded_def)
  show "first_trial_at p (h @ [ETrial q qt t (TrialOk sc sz)])
        = map_option obs_of (map_of (record_attempt q sc sz tr) p)"
    using inv
    by (cases "map_of tr p")
       (auto simp: first_trial_at_append map_of_record_attempt obs_of_def)
qed

lemma search_loop_first_recorded:
  assumes ro: "readonly E"
  shows "first_recorded tr h \<Longrightarrow>
     search_loop k U E inp qt thr isz fs q tr h = Some ex \<Longrightarrow>
     (case ex of
        LoopDone q' sc sz tr' h' \<Rightarrow> first_recorded tr' h'
      | TrialFailed d tr' h' \<Rightarrow> keys_first tr' h')"
proof (induction k arbitrary: q tr h)
  case 0
  then show ?case by simp
next
  case (Suc k)
  obtain r tr1 where tl: "trial E h inp isz fs q qt tr = (r, tr1)"
    by (cases "trial E h inp isz fs q qt tr")
  with ro have tr1: "tr1 = tr"
    by (metis readonly_def snd_conv)
  show ?case
  proof (cases r)
    case (TrialFail d)
    with Suc.prems tl tr1 show ?thesis
      by (auto simp: first_recorded_keys keys_first_append)
  next
    case (TrialOk sc sz)
    let ?h1 = "h @ [ETrial q qt tr (TrialOk sc sz)]"
    let ?tr2 = "record_attempt q sc sz tr"
    have inv: "first_recorded ?tr2 ?h1"
      using Suc.prems(1) by (rule first_recorded_step)
    from Suc.prems(2) tl tr1 TrialOk inv Suc.IH [OF inv] show ?thesis
      by (auto simp: Let_def split: if_splits)
  qed
qed

lemma body_first_recorded:
  assumes ro: "readonly E" and inv: "first_recorded (trials_of a) h"
  shows "(case webpRecompress_body k U E h a of
            Return out \<Rightarrow> keys_first (table out) (events out)
          | Recurse a' h' \<Rightarrow> first_recorded (trials_of a') h'
          | OutOfFuel \<Rightarrow> True)"
proof (cases "pngRegex_test U (input a)")
  case True
  obtain evs where "table (png_path U E h a) = trials_of a"
    and "events (png_path U E h a) = h @ evs"
    using png_path_shape [of U E h a] by blast
  with True inv show ?thesis
    by (simp add: webpRecompress_body_def first_recorded_keys keys_first_append)
next
  case False
  show ?thesis
  proof (cases "prepare U E h a")
    case (Early out)
    from prepare_Early_shape [OF Early] obtain evs where
      "table out = trials_of a" and "events out = h @ evs" by blast
    with False Early inv show ?thesis
      by (simp add: webpRecompress_body_def first_recorded_keys keys_first_append)
  next
    case (Ready isz fs q0 tr0 h3)
    from prepare_Ready_shape [OF Ready] obtain evs where
      tr0: "tr0 = trials_of a" and h3: "h3 = h @ evs" and nt: "filter is_trial evs = []"
      by blast
    have inv3: "first_recorded tr0 h3"
      using inv nt unfolding tr0 h3 by (rule first_recorded_append)
    show ?thesis
    proof (cases "search_loop k U E (input a) (quiet a) (threshold a) isz fs q0 tr0 h3")
      case None
      with False Ready show ?thesis by (simp add: webpRecompress_body_def)
    next
      case (Some ex)
      from search_loop_first_recorded [OF ro inv3 Some]
      have post: "case ex of
          LoopDone q' sc sz tr' h' \<Rightarrow> first_recorded tr' h'
        | TrialFailed d tr' h' \<Rightarrow> keys_first tr' h'" .
      show ?thesis
      proof (cases ex)
        case (TrialFailed d tr' h')
        with post False Ready Some show ?thesis by (simp add: webpRecompress_body_def)
      next
        case (LoopDone q' sc sz tr' h')
        with post have fr: "first_recorded tr' h'" by simp
        obtain evs' where
          "table (final_candidate U E (input a) isz fs sc tr' h') = tr'"
          "events (final_candidate U E (input a) isz fs sc tr' h') = h' @ evs'"
          using final_candidate_shape [of U E "input a" isz fs sc tr' h'] by blast
        with fr LoopDone False Ready Some show ?thesis
          by (simp add: webpRecompress_body_def first_recorded_keys keys_first_append)
      qed
    qed
  qed
qed

lemma webpRecompress_keys_first:
  assumes ro: "readonly E"
  shows "first_recorded (trials_of a) h \<Longrightarrow> webpRecompress k n U E h a = Some out \<Longrightarrow>
     keys_first (table out) (events out)"
proof (induction n arbitrary: a h)
  case 0
  with body_first_recorded [OF ro "0.prems"(1), of k U] show ?case
    by (simp split: step.splits)
next
  case (Suc n)
  from body_first_recorded [OF ro Suc.prems(1), of k U] Suc.prems(2) Suc.IH show ?case
    by (auto split: step.splits)
qed

text \<open>
  C2, as amended.  In a top-level search (no table handed in, an empty history) with a
  trial evaluator that does not write to the table, every entry of the trials table holds
  the score and the size that the first trial at its quality answered: an entry is
  written when it is created (lines 128-134) and only its attempts change afterwards.
\<close>

theorem records_hold_first_observation:
  assumes run: "webpRecompress k n U E [] a = Some out"
    and ro: "readonly E"
    and top: "priorTrials a = None"
    and rec: "map_of (table out) q = Some r"
  shows "first_trial_at q (events out) = Some (TrialOk (score r) (size_bytes r))"
proof -
  have "first_recorded (trials_of a) []"
    using top by (simp add: first_recorded_def trials_of_def)
  from webpRecompress_keys_first [OF ro this run] rec show ?thesis
    by (simp add: keys_first_def obs_of_def)
qed

text \<open>
  A search on \<open>a.jpg\<close> (1000 bytes, start 60): the trial at 60 answers (0.001, 2000), the
  trial at 59 answers (0.03, 10), the second trial at 60 answers (0.01, 10) and ends the
  search; the final answer is quality 60 with 2000 bytes.
\<close>

lemma wobble_run:
  "webpRecompress (Suc (Suc (Suc 0))) 0 spec_utils (jpg_env 1000 wobble) [] wobble_call
   = Some \<lparr>res = CandidateFound 60 1000 2000,
           table = [(60, \<lparr>score = 1/1000, size_bytes = 2000, attempts = 2\<rparr>),
                    (59, \<lparr>score = 3/100, size_bytes = 10, attempts = 1\<rparr>)],
           events = [EStat ''a.jpg'' (Resolved 1000),
                     EIdentify ''a.jpg'' (Rejected Undefined),
                     EConvert ''a.jpg'' ''/cwd/a.png'' (Resolved ()),
                     ETrial 60 False [] (TrialOk (1/1000) 2000),
                     ETrial 59 False
                       [(60, \<lparr>score = 1/1000, size_bytes = 2000, attempts = 1\<rparr>)]
                       (TrialOk (3/100) 10),
                     ETrial 60 False
                       [(60, \<lparr>score = 1/1000, size_bytes = 2000, attempts = 1\<rparr>),
                        (59, \<lparr>score = 3/100, size_bytes = 10, attempts = 1\<rparr>)]
                       (TrialOk (1/100) 10),
                     ETrial 60 True [] (TrialOk (1/100) 10),
                     ECleanUp \<lparr>refPng = ''/cwd/a.png'', outputWebp = ''/cwd/a.webp'',
                               webpPng = ''/cwd/a-webp.png''\<rparr>]\<rparr>"
  by (simp add: wobble_def wobble_call_def jpg_defs)

text \<open>C2 as amended, at that search: the entry of quality 60 is the first trial's answer.\<close>

theorem records_hold_first_observation_witness:
  "\<exists>out r. webpRecompress (Suc (Suc (Suc 0))) 0 spec_utils (jpg_env 1000 wobble) []
               wobble_call = Some out
     \<and> readonly (jpg_env 1000 wobble)
     \<and> priorTrials wobble_call = None
     \<and> map_of (table out) 60 = Some r
     \<and> score r = 1/1000 \<and> size_bytes r = 2000
     \<and> first_trial_at 60 (events out) = Some (TrialOk (score r) (size_bytes r))"
proof -
  obtain out r where
    run: "webpRecompress (Suc (Suc (Suc 0))) 0 spec_utils (jpg_env 1000 wobble) []
      wobble_call = Some out"
    and rec: "map_of (table out) 60 = Some r"
    and vals: "score r = 1/1000" "size_bytes r = 2000"
    by (simp add: wobble_run del: webpRecompress.simps)
  have ro: "readonly (jpg_env 1000 wobble)"
    by (simp add: readonly_def jpg_env_def stub_env_def)
  have top: "priorTrials wobble_call = None"
    by (simp add: wobble_call_def call_def)
  from records_hold_first_observation [OF run ro top rec] run ro top rec vals
  show ?thesis by blast
qed

text \<open>
  C2 as stated fails at that search: the entry of quality 60 holds (0.001, 2000), and the
  last trial at quality 60 answered (0.01, 10), with or without the confirming trial.
\<close>

theorem records_not_last_observation:
  "\<exists>out r. webpRecompress (Suc (Suc (Suc 0))) 0 spec_utils (jpg_env 1000 wobble) []
               wobble_call = Some out
     \<and> map_of (table out) 60 = Some r
     \<and> score r = 1/1000 \<and> size_bytes r = 2000
     \<and> last_trial_at 60 (events out) = Some (TrialOk (1/100) 10)
     \<and> last_trial_at 60 (filter (\<lambda>e. e \<noteq> ETrial 60 True [] (TrialOk (1/100) 10)) (events out))
         = Some (TrialOk (1/100) 10)"
  by (simp add: wobble_run del: webpRecompress.simps)

subsection \<open>The escape from an oscillation\<close>










subsection \<open>The decrease step\<close>

text \<open>
  The step down of lines 153-157, for any interval policy: after a trial whose size is not
  below the input size (and before the attempts at that quality exceed 3), the next
  iteration runs at \<open>quality - interval\<close> as it is; \<open>clampQuality\<close> is not applied.
\<close>

lemma decrease_step_unclamped:
  assumes "trial E h inp isz fs q qt tr = (TrialOk sc sz, tr1)"
    and "isz \<le> sz"
    and "attempts_at (record_attempt q sc sz tr1) q \<le> 3"
  shows "search_loop (Suc k) U E inp qt thr isz fs q tr h =
         search_loop k U E inp qt thr isz fs (q - getQualityInterval U sc thr q)
           (record_attempt q sc sz tr1) (h @ [ETrial q qt tr (TrialOk sc sz)])"
  using assms by (simp add: Let_def)

text \<open>
  C3 fails on the code.  On \<open>a.jpg\<close> (1000 bytes, start 0) the trial at quality 0 answers
  a size of 2000 bytes: line 154 takes the interval from the quality and \<open>continue\<close>s past
  the clamp of line 164, and the next trial is run at quality -48.
\<close>

theorem decrease_step_leaves_range:
  "webpRecompress (Suc (Suc 0)) 0 spec_utils
     (jpg_env 1000 (\<lambda>i q. if q < 0 then TrialFail (Value ''bad quality'') else TrialOk (1/2) 2000))
     [] (call ''a.jpg'' (2/100) (11/10) 0)
   = Some \<lparr>res = Failure ''Couldn't run image trial: bad quality'',
           table = [(0, \<lparr>score = 1/2, size_bytes = 2000, attempts = 1\<rparr>)],
           events = [EStat ''a.jpg'' (Resolved 1000),
                     EIdentify ''a.jpg'' (Rejected Undefined),
                     EConvert ''a.jpg'' ''/cwd/a.png'' (Resolved ()),
                     ETrial 0 False [] (TrialOk (1/2) 2000),
                     ETrial (- 48) False
                       [(0, \<lparr>score = 1/2, size_bytes = 2000, attempts = 1\<rparr>)]
                       (TrialFail (Value ''bad quality''))]\<rparr>"
  by (simp add: jpg_defs)

subsection \<open>A failing trial\<close>

text \<open>
  A trial of the loop that reports a failure ends the loop at once (lines 123-125); the
  result of the final step (lines 168-173) does not depend on what the confirming trial
  answers.
\<close>

lemma loop_trial_failure_aborts:
  assumes "trial E h inp isz fs q qt tr = (TrialFail d, tr1)"
  shows "search_loop (Suc k) U E inp qt thr isz fs q tr h =
         Some (TrialFailed d tr1 (h @ [ETrial q qt tr (TrialFail d)]))"
  using assms by simp

lemma final_candidate_result:
  "res (final_candidate U E inp isz fs sc tr h) =
     (case getFinalQuality U sc tr of
        None \<Rightarrow> Threw
      | Some (fq, fsz) \<Rightarrow> CandidateFound fq isz fsz)"
  by (simp add: final_candidate_def Let_def split: option.splits prod.splits)

text \<open>
  C8 fails on the code for the confirming trial.  On \<open>a.jpg\<close> (100000 bytes, start 80) the
  trial at 80 passes; the confirming trial of line 170 reports a failure, which nothing
  reads, and the call returns the success of line 173.
\<close>

theorem confirming_trial_failure_ignored:
  "webpRecompress (Suc 0) 0 spec_utils
     (jpg_env 100000 (\<lambda>i q. if i = 0 then TrialOk (1/100) 60000 else TrialFail (Value ''boom'')))
     [] (call ''a.jpg'' (2/100) (11/10) 80)
   = Some \<lparr>res = CandidateFound 80 100000 60000,
           table = [(80, \<lparr>score = 1/100, size_bytes = 60000, attempts = 1\<rparr>)],
           events = [EStat ''a.jpg'' (Resolved 100000),
                     EIdentify ''a.jpg'' (Rejected Undefined),
                     EConvert ''a.jpg'' ''/cwd/a.png'' (Resolved ()),
                     ETrial 80 False [] (TrialOk (1/100) 60000),
                     ETrial 80 True [] (TrialFail (Value ''boom'')),
                     ECleanUp \<lparr>refPng = ''/cwd/a.png'', outputWebp = ''/cwd/a.webp'',
                               webpPng = ''/cwd/a-webp.png''\<rparr>]\<rparr>"
  by (simp add: jpg_defs)

subsection \<open>The confirming trial\<close>

text \<open>
  C9.  When a call returns a candidate, the table it returns is the table the loop was
  left with: the confirming trial was handed an empty table of its own (line 170), and
  whatever it made of that table (\<open>scratch\<close>) is dropped.  The history ends with that one
  trial, at the final quality, and the cleanup.
\<close>

theorem confirming_trial_leaves_table:
  assumes ret: "webpRecompress_body k U E h a = Return out"
    and found: "res out = CandidateFound fq isz fsz"
  shows "\<exists>fs q0 tr0 h3 q sc sz h4 rt scratch.
     prepare U E h a = Ready isz fs q0 tr0 h3
     \<and> search_loop k U E (input a) (quiet a) (threshold a) isz fs q0 tr0 h3
         = Some (LoopDone q sc sz (table out) h4)
     \<and> trial E h4 (input a) isz fs fq True [] = (rt, scratch)
     \<and> events out = h4 @ [ETrial fq True [] rt, ECleanUp fs]"
  using body_candidate_cases [OF ret found] by blast

text \<open>
  C9 at a trial evaluator that writes an entry into the table it is handed when it is
  called quietly: the table of the search does not hold that entry.
\<close>

theorem confirming_trial_leaves_table_witness:
  "\<exists>out. webpRecompress_body (Suc 0) spec_utils (scribbling_env 100000) [] steady_call
            = Return out
     \<and> res out = CandidateFound 80 100000 60000
     \<and> table out = [(80, \<lparr>score = 1/100, size_bytes = 60000, attempts = 1\<rparr>)]
     \<and> (\<exists>fs h4 rt scratch.
           trial (scribbling_env 100000) h4 (input steady_call) 100000 fs 80 True []
             = (rt, scratch)
           \<and> scratch = [(80, \<lparr>score = 0, size_bytes = 0, attempts = 9\<rparr>)]
           \<and> events out = h4 @ [ETrial 80 True [] rt, ECleanUp fs])"
proof -
  let ?E = "scribbling_env 100000"
  obtain out where ret: "webpRecompress_body (Suc 0) spec_utils ?E [] steady_call = Return out"
    and found: "res out = CandidateFound 80 100000 60000"
    and tbl: "table out = [(80, \<lparr>score = 1/100, size_bytes = 60000, attempts = 1\<rparr>)]"
    by (simp add: scribbling_env_def steady_call_def jpg_defs)
  from confirming_trial_leaves_table [OF ret found] obtain fs h4 rt scratch where
    tl: "trial ?E h4 (input steady_call) 100000 fs 80 True [] = (rt, scratch)"
    and ev: "events out = h4 @ [ETrial 80 True [] rt, ECleanUp fs]"
    by blast
  from tl have "scratch = [(80, \<lparr>score = 0, size_bytes = 0, attempts = 9\<rparr>)]"
    by (auto simp: scribbling_env_def)
  with ret found tbl tl ev show ?thesis by blast
qed

subsection \<open>The retry\<close>

lemma roundTo_spec_mono_on_grid:
  assumes "1 \<le> m" and "0 \<le> t" and "t = of_int i / 10 ^ p"
  shows "t \<le> roundTo_spec p (t * m)"
proof -
  have pos: "(0::real) < 10 ^ p" by simp
  have "t * 1 \<le> t * m" using assms(1,2) by (intro mult_left_mono) auto
  then have "t * 10 ^ p \<le> t * m * 10 ^ p" using pos by (simp add: mult_right_mono)
  moreover have "t * 10 ^ p = of_int i" using assms(3) by simp
  ultimately have "of_int i \<le> t * m * 10 ^ p" by simp
  then have "round (of_int i :: real) \<le> round (t * m * 10 ^ p)" by (rule round_mono)
  then have "i \<le> round (t * m * 10 ^ p)" by simp
  then have "(of_int i :: real) \<le> of_int (round (t * m * 10 ^ p))" by simp
  then have "of_int i / 10 ^ p \<le> of_int (round (t * m * 10 ^ p)) / (10 ^ p :: real)"
    using pos by (simp add: divide_right_mono)
  then show ?thesis using assms(3) by (simp add: roundTo_spec_def)
qed

text \<open>
  C7, as amended.  When the loop is left without success, the call is the recursive call
  with the threshold \<open>roundTo (threshold * thresholdMultiplier)\<close>, the start at the last
  quality, \<open>prior\<close> true and the same trials table, on the history so far.  With
  \<open>roundTo\<close> rounding to \<open>p\<close> decimal places, the new threshold is at least the old one
  when the multiplier is at least 1 and the old threshold is a multiple of \<open>10 ^ -p\<close>.
\<close>

theorem retry_after_failed_attempt:
  assumes nopng: "\<not> pngRegex_test U (input a)"
    and prep: "prepare U E h a = Ready isz fs q0 tr0 h3"
    and loop: "search_loop k U E (input a) (quiet a) (threshold a) isz fs q0 tr0 h3
               = Some (LoopDone q sc sz tr h4)"
    and fail: "\<not> (sc \<le> threshold a \<and> sz < isz)"
  shows "webpRecompress k (Suc n) U E h a =
           webpRecompress k n U E h4
             (a\<lparr>threshold := roundTo U (threshold a * thresholdMultiplier a),
                start := q, prior := True, priorTrials := Some tr\<rparr>)
         \<and> (roundTo U = roundTo_spec p \<and> 1 \<le> thresholdMultiplier a
              \<and> threshold a = of_int i / 10 ^ p
            \<longrightarrow> threshold a \<le> roundTo U (threshold a * thresholdMultiplier a))"
proof
  have "webpRecompress_body k U E h a = Recurse (retry_args U a q tr) h4"
    using nopng prep loop fail by (simp add: webpRecompress_body_def)
  then show "webpRecompress k (Suc n) U E h a =
           webpRecompress k n U E h4
             (a\<lparr>threshold := roundTo U (threshold a * thresholdMultiplier a),
                start := q, prior := True, priorTrials := Some tr\<rparr>)"
    by (simp add: retry_args_def)
next
  have "0 \<le> threshold a" using prepare_Ready_shape [OF prep] by blast
  then show "roundTo U = roundTo_spec p \<and> 1 \<le> thresholdMultiplier a
              \<and> threshold a = of_int i / 10 ^ p
            \<longrightarrow> threshold a \<le> roundTo U (threshold a * thresholdMultiplier a)"
    using roundTo_spec_mono_on_grid [of "thresholdMultiplier a" "threshold a" i p] by auto
qed

text \<open>C7 as amended, at a search stuck at quality 100: 0.02 is relaxed to 0.022.\<close>

theorem retry_after_failed_attempt_witness:
  "\<exists>isz fs q0 tr0 h3 q sc sz tr h4.
     \<not> pngRegex_test spec_utils (input stuck_call)
     \<and> prepare spec_utils (jpg_env 1000 (\<lambda>i q. TrialOk (1/2) 10)) [] stuck_call
         = Ready isz fs q0 tr0 h3
     \<and> search_loop (Suc (Suc (Suc (Suc 0)))) spec_utils
           (jpg_env 1000 (\<lambda>i q. TrialOk (1/2) 10)) (input stuck_call) (quiet stuck_call)
           (threshold stuck_call) isz fs q0 tr0 h3
         = Some (LoopDone q sc sz tr h4)
     \<and> \<not> (sc \<le> threshold stuck_call \<and> sz < isz)
     \<and> q = 102
     \<and> webpRecompress (Suc (Suc (Suc (Suc 0)))) (Suc 0) spec_utils
           (jpg_env 1000 (\<lambda>i q. TrialOk (1/2) 10)) [] stuck_call
         = webpRecompress (Suc (Suc (Suc (Suc 0)))) 0 spec_utils
             (jpg_env 1000 (\<lambda>i q. TrialOk (1/2) 10)) h4
             (stuck_call\<lparr>threshold := 11/500, start := 102, prior := True,
                         priorTrials := Some tr\<rparr>)
     \<and> roundTo spec_utils = roundTo_spec 3
     \<and> 1 \<le> thresholdMultiplier stuck_call
     \<and> threshold stuck_call = of_int 20 / 10 ^ 3
     \<and> threshold stuck_call \<le> 11/500"
proof -
  let ?U = spec_utils
  let ?E = "jpg_env 1000 (\<lambda>i q. TrialOk (1/2) 10)"
  let ?k = "Suc (Suc (Suc (Suc 0)))"
  have nopng: "\<not> pngRegex_test ?U (input stuck_call)"
    by (simp add: stuck_call_def jpg_defs)
  obtain fs h3 where prep: "prepare ?U ?E [] stuck_call = Ready 1000 fs 100 [] h3"
    by (simp add: stuck_call_def jpg_defs)
  obtain tr h4 where loop: "search_loop ?k ?U ?E (input stuck_call) (quiet stuck_call)
      (threshold stuck_call) 1000 fs 100 [] h3 = Some (LoopDone 102 (1/2) 10 tr h4)"
    by (simp add: stuck_call_def jpg_defs)
  have fail: "\<not> (1/2 \<le> threshold stuck_call \<and> (10::nat) < 1000)"
    by (simp add: stuck_call_def call_def)
  have rt: "roundTo ?U = roundTo_spec 3" by (simp add: spec_utils_def utils_spec_def)
  have mu: "1 \<le> thresholdMultiplier stuck_call" by (simp add: stuck_call_def call_def)
  have grid: "threshold stuck_call = of_int 20 / 10 ^ 3" by (simp add: stuck_call_def call_def)
  have val: "roundTo ?U (threshold stuck_call * thresholdMultiplier stuck_call) = 11/500"
    by (simp add: stuck_call_def call_def spec_utils_def utils_spec_def roundTo_spec_def
          round_def)
  note r = retry_after_failed_attempt [OF nopng prep loop fail, of 0 3 20]
  from r have eq: "webpRecompress ?k (Suc 0) ?U ?E [] stuck_call =
           webpRecompress ?k 0 ?U ?E h4
             (stuck_call\<lparr>threshold := roundTo ?U (threshold stuck_call * thresholdMultiplier stuck_call),
                         start := 102, prior := True, priorTrials := Some tr\<rparr>)"
    by (rule conjunct1)
  from r rt mu grid
  have le: "threshold stuck_call \<le> roundTo ?U (threshold stuck_call * thresholdMultiplier stuck_call)"
    by blast
  note eq' = eq [unfolded val] and le' = le [unfolded val]
  from nopng prep loop fail rt mu grid eq' le' show ?thesis by blast
qed

text \<open>
  C7 as stated fails: a threshold of 0.44444444 with the multiplier 1.0000000001 is
  retried with a smaller threshold, whichever of 0 to 7 decimal places \<open>roundTo\<close> keeps.
\<close>

theorem retry_threshold_can_shrink:
  "list_all
     (\<lambda>p. \<exists>a' h'.
        webpRecompress_body (Suc (Suc (Suc (Suc 0)))) (utils_spec p (44444444/100000000)) (jpg_env 1000 (\<lambda>i q. TrialOk (1/2) 10)) []
          (call ''a.jpg'' (44444444/100000000) (10000000001/10000000000) 100) = Recurse a' h'
        \<and> threshold a' < threshold (call ''a.jpg'' (44444444/100000000) (10000000001/10000000000) 100))
     [0, 1, 2, 3, 4, 5, 6, 7]"
  by (simp add: jpg_defs roundTo_spec_def round_def)

subsection \<open>The final answer\<close>










text \<open>
  The example of the specification: of the entries (0.01, 500) at quality 70 and
  (0.02, 300) at quality 60, with a threshold of 0.05, the second is chosen, whatever the
  score passed.
\<close>

lemma getFinalQuality_spec_example:
  "getFinalQuality_spec (5/100) sc
     [(70, \<lparr>score = 1/100, size_bytes = 500, attempts = 1\<rparr>),
      (60, \<lparr>score = 2/100, size_bytes = 300, attempts = 1\<rparr>)] = Some (60, 300)"
  by (simp add: getFinalQuality_spec_def)








end
